theory Spec2Isabelle
  imports Main
begin

section \<open>Python strings\<close>

text \<open>
  The script \<^verbatim>\<open>tools/ensure_plan_untracked.py\<close> works on Python \<^verbatim>\<open>str\<close> values: sequences of
  Unicode code points. A \<^typ>\<open>char\<close> of HOL is one byte, so a \<^verbatim>\<open>str\<close> is modelled as the list
  of its code points, and \<open>py\<close> turns an ASCII literal of the source into such a list.
\<close>

type_synonym codepoint = nat
type_synonym pystr = "codepoint list"

definition py :: "string \<Rightarrow> pystr" where
  "py s = map of_char s"

text \<open>
  \<^verbatim>\<open>str.isspace\<close> for one code point: the characters that \<^verbatim>\<open>str.strip()\<close> and \<^verbatim>\<open>str.split()\<close>
  without arguments treat as whitespace (bidirectional type WS, B or S, or category Zs).
\<close>

definition isspace :: "codepoint \<Rightarrow> bool" where
  "isspace c \<longleftrightarrow>
     (0x09 \<le> c \<and> c \<le> 0x0D) \<or> (0x1C \<le> c \<and> c \<le> 0x20) \<or> c = 0x85 \<or> c = 0xA0 \<or>
     c = 0x1680 \<or> (0x2000 \<le> c \<and> c \<le> 0x200A) \<or> c = 0x2028 \<or> c = 0x2029 \<or>
     c = 0x202F \<or> c = 0x205F \<or> c = 0x3000"

text \<open>The line boundaries of \<^verbatim>\<open>str.splitlines()\<close>.\<close>

definition islinebreak :: "codepoint \<Rightarrow> bool" where
  "islinebreak c \<longleftrightarrow>
     (0x0A \<le> c \<and> c \<le> 0x0D) \<or> (0x1C \<le> c \<and> c \<le> 0x1E) \<or> c = 0x85 \<or>
     c = 0x2028 \<or> c = 0x2029"

text \<open>
  \<^verbatim>\<open>str.splitlines()\<close>: the text is cut at every line boundary, \<^verbatim>\<open>\r\n\<close> counting as one
  boundary; the boundaries are not kept, and a boundary at the very end opens no further
  line. The first argument is the line read so far.
\<close>

fun splitlines_from :: "pystr \<Rightarrow> pystr \<Rightarrow> pystr list" where
  "splitlines_from cur [] = (if cur = [] then [] else [cur])"
| "splitlines_from cur [c] = (if islinebreak c then [cur] else [cur @ [c]])"
| "splitlines_from cur (c # d # s) =
     (if c = 0x0D \<and> d = 0x0A then cur # splitlines_from [] s
      else if islinebreak c then cur # splitlines_from [] (d # s)
      else splitlines_from (cur @ [c]) (d # s))"

definition splitlines :: "pystr \<Rightarrow> pystr list" where
  "splitlines s = splitlines_from [] s"

text \<open>\<^verbatim>\<open>str.strip()\<close>: whitespace removed from both ends.\<close>

definition strip :: "pystr \<Rightarrow> pystr" where
  "strip s = rev (dropWhile isspace (rev (dropWhile isspace s)))"

text \<open>
  \<^verbatim>\<open>str.split()\<close> without arguments: skip whitespace; if the text is used up, stop; otherwise
  the next word runs up to the next whitespace character or the end.
\<close>

function split_ws :: "pystr \<Rightarrow> pystr list" where
  "split_ws s =
     (case dropWhile isspace s of
        [] \<Rightarrow> []
      | c # r \<Rightarrow> (c # takeWhile (\<lambda>x. \<not> isspace x) r) # split_ws (dropWhile (\<lambda>x. \<not> isspace x) r))"
  by pat_completeness auto
termination
proof (relation "measure length")
  show "wf (measure length)" by simp
next
  fix s :: pystr and c r
  assume "dropWhile isspace s = c # r"
  then have "length r < length s"
    using length_dropWhile_le [of isspace s] by simp
  moreover have "length (dropWhile (\<lambda>x. \<not> isspace x) r) \<le> length r"
    by (rule length_dropWhile_le)
  ultimately show "(dropWhile (\<lambda>x. \<not> isspace x) r, s) \<in> measure length"
    by simp
qed

declare split_ws.simps [simp del]

section \<open>The environment\<close>

text \<open>
  \<^verbatim>\<open>subprocess.run(["git", *args], cwd=REPO_ROOT, check=False, capture_output=True, text=True)\<close>
  returns a \<^verbatim>\<open>CompletedProcess\<close>. The environment of one invocation answers every git
  command line with such a value and says whether \<^verbatim>\<open>PLAN_PATH\<close> exists. Both are reads: the
  script changes neither the repository nor the working tree. An environment in which git
  cannot be started, or prints bytes that do not decode, is outside the model, as it is
  outside the contract of the script.
\<close>

record completed_process =
  returncode :: int
  stdout :: pystr
  stderr :: pystr

record world =
  git :: "pystr list \<Rightarrow> completed_process"
  plan_exists :: bool

definition PLAN_NAME :: pystr where
  "PLAN_NAME = py ''PLAN.md''"

definition run_git_command :: "world \<Rightarrow> pystr list \<Rightarrow> completed_process" where
  "run_git_command w args = git w args"

definition ls_files_args :: "pystr list" where
  "ls_files_args = [py ''ls-files'', py ''--error-unmatch'', PLAN_NAME]"

definition diff_args :: "pystr list" where
  "diff_args = [py ''diff'', py ''--cached'', py ''--name-status'', py ''--'', PLAN_NAME]"

definition plan_is_tracked :: "world \<Rightarrow> bool" where
  "plan_is_tracked w =
     (let tracked = run_git_command w ls_files_args in returncode tracked = 0)"

section \<open>Staged status codes\<close>

text \<open>
  \<^verbatim>\<open>parts[0]\<close> raises \<^verbatim>\<open>IndexError\<close> on an empty list; the loop of \<^verbatim>\<open>staged_status_codes\<close> is the
  recursion \<open>status_loop\<close> over the lines, with the set \<^verbatim>\<open>statuses\<close> as its accumulator.
\<close>

datatype py_error = IndexError

fun status_loop :: "pystr list \<Rightarrow> pystr set \<Rightarrow> py_error + pystr set" where
  "status_loop [] statuses = Inr statuses"
| "status_loop (line # lines) statuses =
     (let line = strip line in
      if line = [] then status_loop lines statuses
      else (case split_ws line of
              [] \<Rightarrow> Inl IndexError
            | status # _ \<Rightarrow> status_loop lines (insert status statuses)))"

definition staged_status_codes :: "world \<Rightarrow> py_error + pystr set" where
  "staged_status_codes w =
     (let staged = run_git_command w diff_args
      in status_loop (splitlines (stdout staged)) {})"

section \<open>The check\<close>

text \<open>
  What one invocation does to the outside, in order: the git commands it runs, the query
  \<^verbatim>\<open>PLAN_PATH.exists()\<close>, and the texts it hands to \<^verbatim>\<open>sys.stderr.write\<close>. A run of \<^verbatim>\<open>main\<close> is
  this trace together with the returned integer, which \<^verbatim>\<open>sys.exit\<close> makes the exit status of
  the process.
\<close>

datatype effect = Run_git "pystr list" | Path_exists | Stderr_write pystr

record run =
  trace :: "effect list"
  exit_code :: int

definition msg_tracked :: pystr where
  "msg_tracked =
     py ''PLAN.md is tracked in git; remove it with '' @
     py ''`git rm --cached PLAN.md` and ensure it stays ignored.'' @ [0x0A]"

definition msg_staged :: pystr where
  "msg_staged =
     py ''PLAN.md has staged changes; ensure it remains untracked before committing.'' @ [0x0A]"

definition msg_missing :: pystr where
  "msg_missing =
     py ''PLAN.md is missing from the working tree; create the planning scratchpad '' @
     py ''if the process requires it.'' @ [0x0A]"

text \<open>
  \<^verbatim>\<open>main\<close> issues both git queries before it looks at either answer. An exception raised
  while the staged output is parsed would leave \<^verbatim>\<open>main\<close> unreturned: the \<open>Inl\<close> branch.
\<close>

definition main :: "world \<Rightarrow> py_error + run" where
  "main w =
     (let tracked = plan_is_tracked w;
          queries = [Run_git ls_files_args, Run_git diff_args]
      in case staged_status_codes w of
           Inl e \<Rightarrow> Inl e
         | Inr staged \<Rightarrow>
             if tracked then
               Inr \<lparr>trace = queries @ [Stderr_write msg_tracked], exit_code = 1\<rparr>
             else
               let invalid_statuses = staged - {py ''D''} in
               if invalid_statuses \<noteq> {} then
                 Inr \<lparr>trace = queries @ [Stderr_write msg_staged], exit_code = 2\<rparr>
               else if py ''D'' \<in> staged then
                 Inr \<lparr>trace = queries, exit_code = 0\<rparr>
               else if \<not> plan_exists w then
                 Inr \<lparr>trace = queries @ [Path_exists, Stderr_write msg_missing], exit_code = 3\<rparr>
               else
                 Inr \<lparr>trace = queries @ [Path_exists], exit_code = 0\<rparr>)"

subsection \<open>Observations on a run\<close>

fun stderr_writes :: "effect list \<Rightarrow> pystr list" where
  "stderr_writes [] = []"
| "stderr_writes (Stderr_write m # es) = m # stderr_writes es"
| "stderr_writes (_ # es) = stderr_writes es"

definition stderr_text :: "run \<Rightarrow> pystr" where
  "stderr_text r = concat (stderr_writes (trace r))"

definition consulted_working_tree :: "run \<Rightarrow> bool" where
  "consulted_working_tree r \<longleftrightarrow> Path_exists \<in> set (trace r)"

text \<open>A text that is one line: it ends with a newline and has no other.\<close>

definition is_one_line :: "pystr \<Rightarrow> bool" where
  "is_one_line t \<longleftrightarrow> t \<noteq> [] \<and> last t = 0x0A \<and> 0x0A \<notin> set (butlast t)"

subsection \<open>The outcomes of the specification\<close>

text \<open>
  The specification names five outcomes and gives each a result code and says whether a
  diagnostic goes with it. The script has no such type: it has five \<^verbatim>\<open>return\<close> statements.
  A run shows which of them it took by the integer returned, by the text written
  to the error stream and, for the two that return 0 in silence, by whether the working
  tree was asked for the file: the return for a staged deletion comes before that query,
  the return of the steady state after it.
\<close>

datatype outcome = OK | OK_STAGED_DELETE | TRACKED | INVALID_STAGED_CHANGE | MISSING

fun result_code :: "outcome \<Rightarrow> int" where
  "result_code OK = 0"
| "result_code OK_STAGED_DELETE = 0"
| "result_code TRACKED = 1"
| "result_code INVALID_STAGED_CHANGE = 2"
| "result_code MISSING = 3"

definition outcome_of :: "run \<Rightarrow> outcome option" where
  "outcome_of r =
     (if exit_code r = 1 \<and> stderr_text r = msg_tracked then Some TRACKED
      else if exit_code r = 2 \<and> stderr_text r = msg_staged then Some INVALID_STAGED_CHANGE
      else if exit_code r = 3 \<and> stderr_text r = msg_missing then Some MISSING
      else if exit_code r = 0 \<and> stderr_text r = [] then
        Some (if consulted_working_tree r then OK else OK_STAGED_DELETE)
      else None)"

subsection \<open>The leading tokens of the lines, as the specification words them\<close>

text \<open>
  The leading whitespace-delimited token of a line is its first maximal run of characters
  that are not whitespace; a line of whitespace only has none. The lines of a text are
  those of \<open>splitlines\<close>.
\<close>

definition leading_token :: "pystr \<Rightarrow> pystr option" where
  "leading_token l =
     (let t = takeWhile (\<lambda>x. \<not> isspace x) (dropWhile isspace l)
      in if t = [] then None else Some t)"

definition leading_tokens_of_lines :: "pystr \<Rightarrow> pystr set" where
  "leading_tokens_of_lines out =
     set (List.map_filter leading_token (filter (\<lambda>l. l \<noteq> []) (splitlines out)))"

subsection \<open>Sample environments\<close>

text \<open>
  An environment in which \<^verbatim>\<open>git ls-files\<close> exits with \<open>rc\<close>, \<^verbatim>\<open>git diff --cached\<close> prints
  \<open>out\<close>, and the file exists or not.
\<close>

definition sample_world :: "int \<Rightarrow> pystr \<Rightarrow> bool \<Rightarrow> world" where
  "sample_world rc out ex =
     \<lparr>git = (\<lambda>args.
         if args = ls_files_args then \<lparr>returncode = rc, stdout = [], stderr = []\<rparr>
         else \<lparr>returncode = 0, stdout = out, stderr = []\<rparr>),
      plan_exists = ex\<rparr>"

definition TAB :: pystr where "TAB = [0x09]"
definition NL :: pystr where "NL = [0x0A]"

definition staged_deletion :: pystr where
  "staged_deletion = py ''D'' @ TAB @ py ''PLAN.md'' @ NL"

definition staged_modification :: pystr where
  "staged_modification = py ''M'' @ TAB @ py ''PLAN.md'' @ NL"

definition staged_odd_codes :: pystr where
  "staged_odd_codes =
     py ''DM'' @ TAB @ py ''PLAN.md'' @ NL @
     py ''d'' @ TAB @ py ''PLAN.md'' @ NL @
     py ''R100'' @ TAB @ py ''OLD.md'' @ TAB @ py ''PLAN.md'' @ NL"

definition staged_with_blanks :: pystr where
  "staged_with_blanks =
     NL @ py '' '' @ TAB @ NL @ staged_deletion @ NL @ staged_deletion @
     py ''  '' @ staged_modification"

text \<open>
  An environment that differs from \<open>sample_world 1 out ex\<close> in everything the script
  does not read: the exit status of \<^verbatim>\<open>git ls-files\<close> is another non-zero value, and both
  commands print to their error streams.
\<close>

definition noisy_world :: "pystr \<Rightarrow> bool \<Rightarrow> world" where
  "noisy_world out ex =
     \<lparr>git = (\<lambda>args.
         if args = ls_files_args then
           \<lparr>returncode = 128, stdout = [], stderr = py ''fatal: not a git repository''\<rparr>
         else \<lparr>returncode = 1, stdout = out, stderr = py ''warning''\<rparr>),
      plan_exists = ex\<rparr>"

section \<open>Parsing the staged output\<close>

lemma strip_Nil_iff: "strip l = [] \<longleftrightarrow> (\<forall>c\<in>set l. isspace c)"
proof
  assume "strip l = []"
  then have all: "\<forall>c\<in>set (dropWhile isspace l). isspace c"
    by (simp add: strip_def)
  show "\<forall>c\<in>set l. isspace c"
  proof (cases "dropWhile isspace l")
    case Nil
    then show ?thesis by simp
  next
    case (Cons c r)
    then have "\<not> isspace c" using hd_dropWhile [of isspace l] by simp
    with all Cons show ?thesis by simp
  qed
next
  assume "\<forall>c\<in>set l. isspace c"
  then show "strip l = []" unfolding strip_def by (auto dest: set_dropWhileD)
qed

lemma leading_token_None_iff: "leading_token l = None \<longleftrightarrow> (\<forall>c\<in>set l. isspace c)"
proof (cases "dropWhile isspace l")
  case Nil
  then have "\<forall>c\<in>set l. isspace c" by simp
  then show ?thesis unfolding leading_token_def Nil by simp
next
  case (Cons c r)
  then have "\<not> isspace c" using hd_dropWhile [of isspace l] by simp
  moreover from Cons have "\<not> (\<forall>x\<in>set l. isspace x)"
    using dropWhile_eq_Nil_conv [of isspace l] by simp
  ultimately show ?thesis using Cons unfolding leading_token_def by simp
qed

lemma takeWhile_snoc_stop: "P x \<Longrightarrow> takeWhile (\<lambda>x. \<not> P x) (xs @ [x]) = takeWhile (\<lambda>x. \<not> P x) xs"
  by (induction xs) auto

text \<open>Removing whitespace from the end of a text leaves its first word as it was.\<close>

lemma takeWhile_rstrip:
  "takeWhile (\<lambda>x. \<not> P x) (rev (dropWhile P (rev xs))) = takeWhile (\<lambda>x. \<not> P x) xs"
proof (induction xs rule: rev_induct)
  case Nil
  then show ?case by simp
next
  case (snoc x xs)
  show ?case
  proof (cases "P x")
    case True
    then show ?thesis using snoc by (simp add: takeWhile_snoc_stop)
  next
    case False
    then show ?thesis by simp
  qed
qed

lemma split_ws_strip:
  assumes "dropWhile isspace l = c # r"
  shows "\<exists>rest. split_ws (strip l) = (c # takeWhile (\<lambda>x. \<not> isspace x) r) # rest"
    and "leading_token l = Some (c # takeWhile (\<lambda>x. \<not> isspace x) r)"
proof -
  have nc: "\<not> isspace c" using assms hd_dropWhile [of isspace l] by simp
  show "leading_token l = Some (c # takeWhile (\<lambda>x. \<not> isspace x) r)"
    using assms nc unfolding leading_token_def by simp
  have s: "strip l = c # rev (dropWhile isspace (rev r))"
    using assms nc by (simp add: strip_def dropWhile_append)
  have "split_ws (c # rev (dropWhile isspace (rev r))) =
          (c # takeWhile (\<lambda>x. \<not> isspace x) (rev (dropWhile isspace (rev r)))) #
          split_ws (dropWhile (\<lambda>x. \<not> isspace x) (rev (dropWhile isspace (rev r))))"
    by (subst split_ws.simps) (simp add: nc)
  then show "\<exists>rest. split_ws (strip l) = (c # takeWhile (\<lambda>x. \<not> isspace x) r) # rest"
    unfolding s by (simp add: takeWhile_rstrip)
qed

lemma status_loop_step:
  "status_loop (l # ls) acc =
     status_loop ls (case leading_token l of None \<Rightarrow> acc | Some t \<Rightarrow> insert t acc)"
proof (cases "dropWhile isspace l")
  case Nil
  then have sp: "\<forall>c\<in>set l. isspace c" by simp
  then have "strip l = []" "leading_token l = None"
    by (simp_all add: strip_Nil_iff leading_token_None_iff)
  then show ?thesis by simp
next
  case (Cons c r)
  from split_ws_strip [OF Cons] obtain rest where
    sw: "split_ws (strip l) = (c # takeWhile (\<lambda>x. \<not> isspace x) r) # rest"
    and lt: "leading_token l = Some (c # takeWhile (\<lambda>x. \<not> isspace x) r)" by blast
  have "strip l \<noteq> []" using Cons strip_Nil_iff [of l] dropWhile_eq_Nil_conv [of isspace l] by simp
  then show ?thesis using sw lt by simp
qed

lemma status_loop_eq:
  "status_loop ls acc = Inr (acc \<union> set (List.map_filter leading_token ls))"
proof (induction ls arbitrary: acc)
  case Nil
  then show ?case by (simp add: List.map_filter_simps)
next
  case (Cons l ls)
  show ?case
    unfolding status_loop_step Cons.IH
    by (cases "leading_token l") (simp_all add: List.map_filter_simps)
qed

lemma map_filter_nonempty:
  "List.map_filter leading_token (filter (\<lambda>l. l \<noteq> []) ls) = List.map_filter leading_token ls"
proof (induction ls)
  case Nil
  then show ?case by simp
next
  case (Cons l ls)
  have "leading_token [] = None" by (simp add: leading_token_def)
  with Cons show ?case by (cases "l = []") (simp_all add: List.map_filter_simps split: option.split)
qed

lemma staged_status_codes_eq:
  "staged_status_codes w =
     Inr (set (List.map_filter leading_token (splitlines (stdout (run_git_command w diff_args)))))"
  by (simp add: staged_status_codes_def status_loop_eq)

lemma staged_status_codes_total: "\<exists>staged. staged_status_codes w = Inr staged"
  by (simp add: staged_status_codes_eq)

lemma msg_one_line: "is_one_line msg_tracked" "is_one_line msg_staged" "is_one_line msg_missing"
  by (simp_all add: is_one_line_def msg_tracked_def msg_staged_def msg_missing_def py_def)

lemma msg_nonempty: "msg_tracked \<noteq> []" "msg_staged \<noteq> []" "msg_missing \<noteq> []"
  by (simp_all add: msg_tracked_def msg_staged_def msg_missing_def)

lemma sample_world_simps:
  "plan_is_tracked (sample_world rc out ex) \<longleftrightarrow> rc = 0"
  "staged_status_codes (sample_world rc out ex) = status_loop (splitlines out) {}"
  "plan_exists (sample_world rc out ex) = ex"
  "stdout (run_git_command (sample_world rc out ex) diff_args) = out"
  by (simp_all add: sample_world_def plan_is_tracked_def staged_status_codes_def
      run_git_command_def ls_files_args_def diff_args_def)

lemma main_untracked:
  assumes "\<not> plan_is_tracked w" and "staged_status_codes w = Inr staged"
  shows "main w =
     (if staged - {py ''D''} \<noteq> {} then
        Inr \<lparr>trace = [Run_git ls_files_args, Run_git diff_args, Stderr_write msg_staged],
             exit_code = 2\<rparr>
      else if py ''D'' \<in> staged then
        Inr \<lparr>trace = [Run_git ls_files_args, Run_git diff_args], exit_code = 0\<rparr>
      else if \<not> plan_exists w then
        Inr \<lparr>trace = [Run_git ls_files_args, Run_git diff_args, Path_exists,
                      Stderr_write msg_missing],
             exit_code = 3\<rparr>
      else
        Inr \<lparr>trace = [Run_git ls_files_args, Run_git diff_args, Path_exists], exit_code = 0\<rparr>)"
  using assms by (simp add: main_def Let_def)

lemma outcome_of_simps:
  "outcome_of \<lparr>trace = [Run_git a, Run_git b, Stderr_write msg_tracked], exit_code = 1\<rparr>
     = Some TRACKED"
  "outcome_of \<lparr>trace = [Run_git a, Run_git b, Stderr_write msg_staged], exit_code = 2\<rparr>
     = Some INVALID_STAGED_CHANGE"
  "outcome_of \<lparr>trace = [Run_git a, Run_git b], exit_code = 0\<rparr> = Some OK_STAGED_DELETE"
  "outcome_of \<lparr>trace = [Run_git a, Run_git b, Path_exists, Stderr_write msg_missing],
      exit_code = 3\<rparr> = Some MISSING"
  "outcome_of \<lparr>trace = [Run_git a, Run_git b, Path_exists], exit_code = 0\<rparr> = Some OK"
  by (simp_all add: outcome_of_def stderr_text_def consulted_working_tree_def)

section \<open>The decision\<close>

text \<open>
  C1. Whenever the index query reports the file as tracked, \<^verbatim>\<open>main\<close> returns 1 after writing
  the diagnostic for a tracked file (the outcome TRACKED), whatever the staged output is
  and whether or not the file exists: any other environment \<open>w'\<close> with a tracked file has
  the very same run. The run is the two git queries followed by that one write: the
  working tree is not asked, and nothing of the staged set decides the result.
\<close>

theorem tracked_reported_first:
  assumes "plan_is_tracked w" and "plan_is_tracked w'"
  shows "(\<exists>r. main w = Inr r \<and>
            trace r = [Run_git ls_files_args, Run_git diff_args, Stderr_write msg_tracked] \<and>
            exit_code r = 1 \<and> outcome_of r = Some TRACKED \<and> \<not> consulted_working_tree r) \<and>
         main w' = main w"
proof -
  have tracked: "main v =
      Inr \<lparr>trace = [Run_git ls_files_args, Run_git diff_args, Stderr_write msg_tracked],
           exit_code = 1\<rparr>" if "plan_is_tracked v" for v
  proof -
    obtain staged where "staged_status_codes v = Inr staged"
      using staged_status_codes_total by blast
    with that show ?thesis by (simp add: main_def Let_def)
  qed
  from tracked [OF assms(1)] tracked [OF assms(2)] show ?thesis
    by (simp add: outcome_of_simps consulted_working_tree_def)
qed

theorem tracked_reported_first_witness:
  "plan_is_tracked (sample_world 0 staged_modification False) \<and>
   plan_is_tracked (sample_world 0 [] True) \<and>
   (\<exists>r. main (sample_world 0 staged_modification False) = Inr r \<and>
      trace r = [Run_git ls_files_args, Run_git diff_args, Stderr_write msg_tracked] \<and>
      exit_code r = 1 \<and> outcome_of r = Some TRACKED \<and> \<not> consulted_working_tree r) \<and>
   main (sample_world 0 [] True) = main (sample_world 0 staged_modification False)"
  using tracked_reported_first
    [of "sample_world 0 staged_modification False" "sample_world 0 [] True"]
  by (simp add: sample_world_simps)

text \<open>
  C2. When the file is not tracked and the set of staged status codes holds a code other
  than \<^verbatim>\<open>"D"\<close>, \<^verbatim>\<open>main\<close> returns 2 after writing the diagnostic for staged changes (the
  outcome INVALID_STAGED_CHANGE). Nothing is assumed about \<^verbatim>\<open>"D"\<close> itself: it may be in
  the set as well.
\<close>

theorem other_staged_code_invalid:
  assumes "\<not> plan_is_tracked w" and "staged_status_codes w = Inr staged"
    and "c \<in> staged" and "c \<noteq> py ''D''"
  shows "\<exists>r. main w = Inr r \<and>
           trace r = [Run_git ls_files_args, Run_git diff_args, Stderr_write msg_staged] \<and>
           exit_code r = 2 \<and> outcome_of r = Some INVALID_STAGED_CHANGE"
proof -
  from assms(3,4) have "staged - {py ''D''} \<noteq> {}" by blast
  then show ?thesis
    using main_untracked [OF assms(1,2)] by (simp add: outcome_of_simps)
qed

lemma sample_D_M:
  "status_loop (splitlines (staged_deletion @ staged_modification)) {}
     = Inr {py ''D'', py ''M''}"
  by (auto simp add: staged_deletion_def staged_modification_def py_def TAB_def NL_def split_ws.simps isspace_def islinebreak_def
      splitlines_def strip_def)

theorem other_staged_code_invalid_witness:
  "\<not> plan_is_tracked (sample_world 1 (staged_deletion @ staged_modification) True) \<and>
   staged_status_codes (sample_world 1 (staged_deletion @ staged_modification) True)
     = Inr {py ''D'', py ''M''} \<and>
   py ''M'' \<in> {py ''D'', py ''M''} \<and> py ''M'' \<noteq> py ''D'' \<and>
   (\<exists>r. main (sample_world 1 (staged_deletion @ staged_modification) True) = Inr r \<and>
      trace r = [Run_git ls_files_args, Run_git diff_args, Stderr_write msg_staged] \<and>
      exit_code r = 2 \<and> outcome_of r = Some INVALID_STAGED_CHANGE)"
proof -
  let ?w = "sample_world 1 (staged_deletion @ staged_modification) True"
  have 1: "\<not> plan_is_tracked ?w" by (simp add: sample_world_simps)
  have 2: "staged_status_codes ?w = Inr {py ''D'', py ''M''}"
    by (simp only: sample_world_simps sample_D_M)
  have 3: "py ''M'' \<in> {py ''D'', py ''M''}" by simp
  have 4: "py ''M'' \<noteq> py ''D''" by (simp add: py_def)
  from other_staged_code_invalid [OF 1 2 3 4] 1 2 3 4 show ?thesis by blast
qed

lemma plan_exists_irrelevant:
  "plan_is_tracked (w\<lparr>plan_exists := e\<rparr>) = plan_is_tracked w"
  "staged_status_codes (w\<lparr>plan_exists := e\<rparr>) = staged_status_codes w"
  by (simp_all add: plan_is_tracked_def staged_status_codes_def run_git_command_def)

lemma sample_status_loop:
  "status_loop (splitlines staged_deletion) {} = Inr {py ''D''}"
  "status_loop (splitlines []) {} = Inr {}"
  by (simp_all add: staged_deletion_def py_def TAB_def NL_def split_ws.simps isspace_def
      islinebreak_def splitlines_def strip_def)

text \<open>
  C3. When the file is not tracked and the set of staged status codes is exactly
  \<^verbatim>\<open>{"D"}\<close>, \<^verbatim>\<open>main\<close> returns 0 and writes nothing (the outcome OK_STAGED_DELETE). The run
  ends after the two git queries, so the working tree is not asked whether the file
  exists, and the run is the same whatever the answer \<open>e\<close> would have been.
\<close>

theorem staged_deletion_allowed:
  assumes "\<not> plan_is_tracked w" and "staged_status_codes w = Inr {py ''D''}"
  shows "\<exists>r. main w = Inr r \<and>
           trace r = [Run_git ls_files_args, Run_git diff_args] \<and>
           exit_code r = 0 \<and> stderr_text r = [] \<and> \<not> consulted_working_tree r \<and>
           outcome_of r = Some OK_STAGED_DELETE \<and>
           main (w\<lparr>plan_exists := e\<rparr>) = main w"
proof -
  have m: "main w = Inr \<lparr>trace = [Run_git ls_files_args, Run_git diff_args], exit_code = 0\<rparr>"
    using main_untracked [OF assms] by simp
  have "\<not> plan_is_tracked (w\<lparr>plan_exists := e\<rparr>)"
    and "staged_status_codes (w\<lparr>plan_exists := e\<rparr>) = Inr {py ''D''}"
    using assms by (simp_all add: plan_exists_irrelevant)
  then have "main (w\<lparr>plan_exists := e\<rparr>) =
      Inr \<lparr>trace = [Run_git ls_files_args, Run_git diff_args], exit_code = 0\<rparr>"
    using main_untracked [of "w\<lparr>plan_exists := e\<rparr>" "{py ''D''}"] by simp
  with m show ?thesis
    by (simp add: outcome_of_simps stderr_text_def consulted_working_tree_def)
qed

theorem staged_deletion_allowed_witness:
  "\<not> plan_is_tracked (sample_world 1 staged_deletion False) \<and>
   staged_status_codes (sample_world 1 staged_deletion False) = Inr {py ''D''} \<and>
   \<not> plan_exists (sample_world 1 staged_deletion False) \<and>
   (\<exists>r. main (sample_world 1 staged_deletion False) = Inr r \<and>
      trace r = [Run_git ls_files_args, Run_git diff_args] \<and>
      exit_code r = 0 \<and> stderr_text r = [] \<and> \<not> consulted_working_tree r \<and>
      outcome_of r = Some OK_STAGED_DELETE \<and>
      main ((sample_world 1 staged_deletion False)\<lparr>plan_exists := True\<rparr>) =
        main (sample_world 1 staged_deletion False))"
  using staged_deletion_allowed [of "sample_world 1 staged_deletion False" True]
  by (simp add: sample_world_simps sample_status_loop)

text \<open>
  C4. When the file is not tracked, no status code is staged and the file exists in the
  working tree, \<^verbatim>\<open>main\<close> returns 0 and writes nothing (the outcome OK).
\<close>

theorem untracked_unstaged_present_ok:
  assumes "\<not> plan_is_tracked w" and "staged_status_codes w = Inr {}" and "plan_exists w"
  shows "\<exists>r. main w = Inr r \<and>
           trace r = [Run_git ls_files_args, Run_git diff_args, Path_exists] \<and>
           exit_code r = 0 \<and> stderr_text r = [] \<and> outcome_of r = Some OK"
  using main_untracked [OF assms(1,2)] assms(3)
  by (simp add: outcome_of_simps stderr_text_def)

theorem untracked_unstaged_present_ok_witness:
  "\<not> plan_is_tracked (sample_world 1 [] True) \<and>
   staged_status_codes (sample_world 1 [] True) = Inr {} \<and>
   plan_exists (sample_world 1 [] True) \<and>
   (\<exists>r. main (sample_world 1 [] True) = Inr r \<and>
      trace r = [Run_git ls_files_args, Run_git diff_args, Path_exists] \<and>
      exit_code r = 0 \<and> stderr_text r = [] \<and> outcome_of r = Some OK)"
  using untracked_unstaged_present_ok [of "sample_world 1 [] True"]
  by (simp add: sample_world_simps sample_status_loop)

text \<open>
  C5. When the file is not tracked, no status code is staged and the file does not exist
  in the working tree, \<^verbatim>\<open>main\<close> returns 3 (the outcome MISSING), and what it writes to the
  error stream is the one line of the diagnostic for a missing file.
\<close>

theorem untracked_unstaged_absent_missing:
  assumes "\<not> plan_is_tracked w" and "staged_status_codes w = Inr {}" and "\<not> plan_exists w"
  shows "\<exists>r. main w = Inr r \<and>
           trace r = [Run_git ls_files_args, Run_git diff_args, Path_exists,
                      Stderr_write msg_missing] \<and>
           exit_code r = 3 \<and> stderr_text r = msg_missing \<and> is_one_line (stderr_text r) \<and>
           outcome_of r = Some MISSING"
  using main_untracked [OF assms(1,2)] assms(3)
  by (simp add: outcome_of_simps stderr_text_def msg_one_line)

theorem untracked_unstaged_absent_missing_witness:
  "\<not> plan_is_tracked (sample_world 1 [] False) \<and>
   staged_status_codes (sample_world 1 [] False) = Inr {} \<and>
   \<not> plan_exists (sample_world 1 [] False) \<and>
   (\<exists>r. main (sample_world 1 [] False) = Inr r \<and>
      trace r = [Run_git ls_files_args, Run_git diff_args, Path_exists,
                 Stderr_write msg_missing] \<and>
      exit_code r = 3 \<and> stderr_text r = msg_missing \<and> is_one_line (stderr_text r) \<and>
      outcome_of r = Some MISSING)"
  using untracked_unstaged_absent_missing [of "sample_world 1 [] False"]
  by (simp add: sample_world_simps sample_status_loop)

section \<open>Result codes and diagnostics\<close>

text \<open>
  C7. Every invocation returns: \<^verbatim>\<open>main\<close> raises nothing, its run is one of the five outcomes,
  and the integer it returns is the result code of that outcome, one of 0, 1, 2 and 3.
  Text reaches the error stream exactly when the code is not 0. With code 0 (OK and
  OK_STAGED_DELETE) nothing at all is written; with code 1, 2 or 3 (TRACKED,
  INVALID_STAGED_CHANGE, MISSING) there is exactly one write, and its text is one line.
\<close>

theorem result_code_and_diagnostic:
  "\<exists>r out. main w = Inr r \<and> outcome_of r = Some out \<and> exit_code r = result_code out \<and>
     exit_code r \<in> {0, 1, 2, 3} \<and>
     (stderr_text r = [] \<longleftrightarrow> exit_code r = 0) \<and>
     (if exit_code r = 0 then stderr_writes (trace r) = [] \<and> out \<in> {OK, OK_STAGED_DELETE}
      else (\<exists>m. stderr_writes (trace r) = [m]) \<and> is_one_line (stderr_text r) \<and>
           out \<in> {TRACKED, INVALID_STAGED_CHANGE, MISSING})"
proof -
  obtain staged where st: "staged_status_codes w = Inr staged"
    using staged_status_codes_total by blast
  show ?thesis
  proof (cases "plan_is_tracked w")
    case True
    with st have "main w =
        Inr \<lparr>trace = [Run_git ls_files_args, Run_git diff_args, Stderr_write msg_tracked],
             exit_code = 1\<rparr>"
      by (simp add: main_def Let_def)
    then show ?thesis
      by (simp add: outcome_of_simps stderr_text_def msg_one_line msg_nonempty)
  next
    case False
    note m = main_untracked [OF False st]
    consider (invalid) "staged - {py ''D''} \<noteq> {}"
      | (deletion) "staged - {py ''D''} = {}" "py ''D'' \<in> staged"
      | (missing) "staged - {py ''D''} = {}" "py ''D'' \<notin> staged" "\<not> plan_exists w"
      | (ok) "staged - {py ''D''} = {}" "py ''D'' \<notin> staged" "plan_exists w"
      by blast
    then show ?thesis
    proof cases
      case invalid
      with m show ?thesis
        by (simp add: outcome_of_simps stderr_text_def msg_one_line msg_nonempty)
    next
      case deletion
      with m show ?thesis
        by (simp add: outcome_of_simps stderr_text_def)
    next
      case missing
      with m show ?thesis
        by (simp add: outcome_of_simps stderr_text_def msg_one_line msg_nonempty)
    next
      case ok
      with m show ?thesis
        by (simp add: outcome_of_simps stderr_text_def)
    qed
  qed
qed

theorem result_code_and_diagnostic_witness:
  "\<exists>r out. main (sample_world 1 staged_modification True) = Inr r \<and>
     outcome_of r = Some out \<and> exit_code r = result_code out \<and>
     exit_code r \<in> {0, 1, 2, 3} \<and>
     (stderr_text r = [] \<longleftrightarrow> exit_code r = 0) \<and>
     (if exit_code r = 0 then stderr_writes (trace r) = [] \<and> out \<in> {OK, OK_STAGED_DELETE}
      else (\<exists>m. stderr_writes (trace r) = [m]) \<and> is_one_line (stderr_text r) \<and>
           out \<in> {TRACKED, INVALID_STAGED_CHANGE, MISSING})"
  using result_code_and_diagnostic [of "sample_world 1 staged_modification True"] .

text \<open>
  C8. The run of \<^verbatim>\<open>main\<close> (what it does to the outside and what it returns) is a function of
  three things only: whether the index query succeeded, the text printed by the staged
  query, and whether the file exists. Two invocations whose environments agree on these
  have the same run, whatever else differs between the environments; the script itself
  changes nothing in its environment, so a second invocation meets the same three answers
  as the first.
\<close>

theorem run_determined_by_queries:
  assumes "plan_is_tracked w1 = plan_is_tracked w2"
    and "stdout (run_git_command w1 diff_args) = stdout (run_git_command w2 diff_args)"
    and "plan_exists w1 = plan_exists w2"
  shows "main w1 = main w2"
proof -
  have staged: "staged_status_codes w1 = staged_status_codes w2"
    using assms(2) by (simp add: staged_status_codes_def)
  show ?thesis
    unfolding main_def staged assms(1) assms(3) by (rule refl)
qed

lemma noisy_world_simps:
  "plan_is_tracked (noisy_world out ex) = False"
  "plan_exists (noisy_world out ex) = ex"
  "stdout (run_git_command (noisy_world out ex) diff_args) = out"
  "returncode (git (noisy_world out ex) ls_files_args) = 128"
  by (simp_all add: noisy_world_def plan_is_tracked_def run_git_command_def ls_files_args_def
      diff_args_def)

lemma sample_world_returncode: "returncode (git (sample_world rc out ex) ls_files_args) = rc"
  by (simp add: sample_world_def)

theorem run_determined_by_queries_witness:
  "sample_world 1 staged_modification True \<noteq> noisy_world staged_modification True \<and>
   plan_is_tracked (sample_world 1 staged_modification True) =
     plan_is_tracked (noisy_world staged_modification True) \<and>
   stdout (run_git_command (sample_world 1 staged_modification True) diff_args) =
     stdout (run_git_command (noisy_world staged_modification True) diff_args) \<and>
   plan_exists (sample_world 1 staged_modification True) =
     plan_exists (noisy_world staged_modification True) \<and>
   main (sample_world 1 staged_modification True) = main (noisy_world staged_modification True)"
proof -
  let ?a = "sample_world 1 staged_modification True"
  let ?b = "noisy_world staged_modification True"
  have "returncode (git ?a ls_files_args) \<noteq> returncode (git ?b ls_files_args)"
    by (simp add: noisy_world_simps sample_world_returncode)
  then have ne: "?a \<noteq> ?b" by auto
  have 1: "plan_is_tracked ?a = plan_is_tracked ?b"
    by (simp add: noisy_world_simps sample_world_simps)
  have 2: "stdout (run_git_command ?a diff_args) = stdout (run_git_command ?b diff_args)"
    by (simp add: noisy_world_simps sample_world_simps)
  have 3: "plan_exists ?a = plan_exists ?b"
    by (simp add: noisy_world_simps sample_world_simps)
  from run_determined_by_queries [OF 1 2 3] ne 1 2 3 show ?thesis by blast
qed

section \<open>The deleted status\<close>

lemma odd_codes_differ:
  "py ''DM'' \<noteq> py ''D''" "py ''d'' \<noteq> py ''D''" "py ''R100'' \<noteq> py ''D''"
  by (simp_all add: py_def)

text \<open>
  C9. The deleted status is the string \<^verbatim>\<open>"D"\<close> and nothing else: the one code point U+0044,
  compared by equality. When the file is not tracked and the staged set holds any token
  \<open>t\<close> that is not equal to it, \<^verbatim>\<open>main\<close> returns 2 with the diagnostic for staged changes
  (INVALID_STAGED_CHANGE), and the run is not the one of OK_STAGED_DELETE. The tokens
  \<^verbatim>\<open>"DM"\<close>, \<^verbatim>\<open>"d"\<close> and \<^verbatim>\<open>"R100"\<close> are such tokens.
\<close>

theorem deleted_is_exactly_D:
  assumes "\<not> plan_is_tracked w" and "staged_status_codes w = Inr staged"
    and "t \<in> staged" and "t \<noteq> py ''D''"
  shows "(\<exists>r. main w = Inr r \<and> exit_code r = 2 \<and> stderr_text r = msg_staged \<and>
            outcome_of r = Some INVALID_STAGED_CHANGE \<and>
            outcome_of r \<noteq> Some OK_STAGED_DELETE) \<and>
         py ''D'' = [0x44] \<and>
         py ''DM'' \<noteq> py ''D'' \<and> py ''d'' \<noteq> py ''D'' \<and> py ''R100'' \<noteq> py ''D''"
proof -
  from assms(3,4) have "staged - {py ''D''} \<noteq> {}" by blast
  then have "main w =
      Inr \<lparr>trace = [Run_git ls_files_args, Run_git diff_args, Stderr_write msg_staged],
           exit_code = 2\<rparr>"
    using main_untracked [OF assms(1,2)] by simp
  then have "\<exists>r. main w = Inr r \<and> exit_code r = 2 \<and> stderr_text r = msg_staged \<and>
      outcome_of r = Some INVALID_STAGED_CHANGE \<and> outcome_of r \<noteq> Some OK_STAGED_DELETE"
    by (simp add: outcome_of_simps stderr_text_def)
  moreover have "py ''D'' = [0x44]" by (simp add: py_def)
  ultimately show ?thesis using odd_codes_differ by blast
qed

lemma sample_odd_codes:
  "status_loop (splitlines (staged_deletion @ staged_odd_codes)) {}
     = Inr {py ''D'', py ''DM'', py ''d'', py ''R100''}"
  by (auto simp add: staged_deletion_def staged_odd_codes_def py_def TAB_def NL_def
      split_ws.simps isspace_def islinebreak_def splitlines_def strip_def)

theorem deleted_is_exactly_D_witness:
  "\<not> plan_is_tracked (sample_world 1 (staged_deletion @ staged_odd_codes) True) \<and>
   staged_status_codes (sample_world 1 (staged_deletion @ staged_odd_codes) True)
     = Inr {py ''D'', py ''DM'', py ''d'', py ''R100''} \<and>
   py ''R100'' \<in> {py ''D'', py ''DM'', py ''d'', py ''R100''} \<and>
   py ''R100'' \<noteq> py ''D'' \<and>
   (\<exists>r. main (sample_world 1 (staged_deletion @ staged_odd_codes) True) = Inr r \<and>
      exit_code r = 2 \<and> stderr_text r = msg_staged \<and>
      outcome_of r = Some INVALID_STAGED_CHANGE \<and>
      outcome_of r \<noteq> Some OK_STAGED_DELETE)"
proof -
  let ?w = "sample_world 1 (staged_deletion @ staged_odd_codes) True"
  have 1: "\<not> plan_is_tracked ?w" by (simp add: sample_world_simps)
  have 2: "staged_status_codes ?w = Inr {py ''D'', py ''DM'', py ''d'', py ''R100''}"
    by (simp only: sample_world_simps sample_odd_codes)
  have 3: "py ''R100'' \<in> {py ''D'', py ''DM'', py ''d'', py ''R100''}" by simp
  have 4: "py ''R100'' \<noteq> py ''D''" by (simp add: py_def)
  from deleted_is_exactly_D [OF 1 2 3 4] 1 2 3 4 show ?thesis by blast
qed

section \<open>The staged status codes as a set of tokens\<close>

text \<open>
  C6. For every text printed by the staged query, \<^verbatim>\<open>staged_status_codes\<close> returns exactly
  the set of the leading whitespace-delimited tokens of the non-empty lines of that text,
  the lines being those of \<^verbatim>\<open>str.splitlines\<close>; a non-empty line of whitespace only has no
  token. An empty line leaves the set as it is, and when no line is non-empty the result
  is the empty set.
\<close>

theorem status_codes_are_leading_tokens:
  "staged_status_codes w =
     Inr (leading_tokens_of_lines (stdout (run_git_command w diff_args))) \<and>
   status_loop ([] # ls) acc = status_loop ls acc \<and>
   ((\<forall>l \<in> set (splitlines (stdout (run_git_command w diff_args))). l = []) \<longrightarrow>
      staged_status_codes w = Inr {})"
proof (intro conjI impI)
  show eq: "staged_status_codes w =
      Inr (leading_tokens_of_lines (stdout (run_git_command w diff_args)))"
    by (simp add: staged_status_codes_eq leading_tokens_of_lines_def map_filter_nonempty)
  show "status_loop ([] # ls) acc = status_loop ls acc"
    by (simp add: strip_def)
  assume "\<forall>l \<in> set (splitlines (stdout (run_git_command w diff_args))). l = []"
  then have "filter (\<lambda>l. l \<noteq> []) (splitlines (stdout (run_git_command w diff_args))) = []"
    by (simp add: filter_empty_conv)
  then show "staged_status_codes w = Inr {}"
    unfolding eq leading_tokens_of_lines_def by (simp add: List.map_filter_simps)
qed

lemma sample_with_blanks:
  "splitlines staged_with_blanks =
     [[], py '' '' @ TAB, py ''D'' @ TAB @ py ''PLAN.md'', [], py ''D'' @ TAB @ py ''PLAN.md'',
      py ''  M'' @ TAB @ py ''PLAN.md'']"
  "leading_tokens_of_lines staged_with_blanks = {py ''D'', py ''M''}"
  "splitlines (NL @ NL) = [[], []]"
  by (auto simp add: staged_with_blanks_def staged_deletion_def staged_modification_def
      leading_tokens_of_lines_def leading_token_def List.map_filter_simps
      py_def TAB_def NL_def isspace_def islinebreak_def splitlines_def)

theorem status_codes_are_leading_tokens_witness:
  "splitlines staged_with_blanks =
     [[], py '' '' @ TAB, py ''D'' @ TAB @ py ''PLAN.md'', [], py ''D'' @ TAB @ py ''PLAN.md'',
      py ''  M'' @ TAB @ py ''PLAN.md''] \<and>
   staged_status_codes (sample_world 1 staged_with_blanks True) = Inr {py ''D'', py ''M''} \<and>
   splitlines (NL @ NL) = [[], []] \<and>
   staged_status_codes (sample_world 1 (NL @ NL) True) = Inr {}"
proof -
  let ?w = "sample_world 1 staged_with_blanks True"
  let ?e = "sample_world 1 (NL @ NL) True"
  have "staged_status_codes ?w = Inr (leading_tokens_of_lines (stdout (run_git_command ?w diff_args)))"
    using status_codes_are_leading_tokens [of ?w] by blast
  then have 1: "staged_status_codes ?w = Inr {py ''D'', py ''M''}"
    by (simp only: sample_world_simps sample_with_blanks)
  have "\<forall>l \<in> set (splitlines (stdout (run_git_command ?e diff_args))). l = []"
    by (simp add: sample_world_simps sample_with_blanks)
  with status_codes_are_leading_tokens [of ?e] have 2: "staged_status_codes ?e = Inr {}"
    by blast
  from 1 2 show ?thesis by (simp add: sample_with_blanks)
qed

text \<open>
  C10. Parsing is total: for every text \<open>out\<close>, and so in every environment \<open>w\<close>, the
  loop ends with a set and no \<^verbatim>\<open>IndexError\<close>. A line of whitespace only is skipped and
  leaves the set as it is. A line that is not empty after stripping always has a first
  token, so \<^verbatim>\<open>parts[0]\<close> does not fault. A line whose first token is already in the set
  leaves the set as it is: equal tokens of different lines are one element.
\<close>

theorem status_parsing_total:
  "(\<exists>statuses. status_loop (splitlines out) {} = Inr statuses) \<and>
   (\<exists>statuses. staged_status_codes w = Inr statuses) \<and>
   ((\<forall>c \<in> set l. isspace c) \<longrightarrow> status_loop (l # ls) acc = status_loop ls acc) \<and>
   (strip l \<noteq> [] \<longrightarrow> split_ws (strip l) \<noteq> []) \<and>
   (split_ws (strip l) = t # rest \<longrightarrow> t \<in> acc \<longrightarrow>
      status_loop (l # ls) acc = status_loop ls acc)"
proof (intro conjI impI)
  show "\<exists>statuses. status_loop (splitlines out) {} = Inr statuses"
    by (simp add: status_loop_eq)
  show "\<exists>statuses. staged_status_codes w = Inr statuses"
    by (rule staged_status_codes_total)
next
  assume "\<forall>c \<in> set l. isspace c"
  then have "strip l = []" by (simp add: strip_Nil_iff)
  then show "status_loop (l # ls) acc = status_loop ls acc" by simp
next
  assume ne: "strip l \<noteq> []"
  then obtain c r where "dropWhile isspace l = c # r"
    using strip_Nil_iff [of l] by (cases "dropWhile isspace l") auto
  from split_ws_strip(1) [OF this] show "split_ws (strip l) \<noteq> []" by auto
next
  assume sw: "split_ws (strip l) = t # rest" and mem: "t \<in> acc"
  have "split_ws [] = []" by (subst split_ws.simps) simp
  with sw have "strip l \<noteq> []" by auto
  with sw mem show "status_loop (l # ls) acc = status_loop ls acc"
    by (simp add: insert_absorb)
qed

lemma sample_lines:
  "list_all isspace (py '' '' @ TAB)"
  "strip staged_deletion = py ''D'' @ TAB @ py ''PLAN.md''"
  "split_ws (py ''D'' @ TAB @ py ''PLAN.md'') = [py ''D'', py ''PLAN.md'']"
  by (simp_all add: staged_deletion_def py_def TAB_def NL_def isspace_def strip_def
      split_ws.simps)

theorem status_parsing_total_witness:
  "list_all isspace (py '' '' @ TAB) \<and>
   status_loop [py '' '' @ TAB, staged_deletion] {} = status_loop [staged_deletion] {} \<and>
   strip staged_deletion \<noteq> [] \<and>
   split_ws (strip staged_deletion) = [py ''D'', py ''PLAN.md''] \<and>
   py ''D'' \<in> {py ''D''} \<and>
   status_loop [staged_deletion, staged_modification] {py ''D''} =
     status_loop [staged_modification] {py ''D''} \<and>
   (\<exists>statuses. staged_status_codes (sample_world 1 staged_with_blanks True) = Inr statuses)"
proof -
  have 1: "\<forall>c \<in> set (py '' '' @ TAB). isspace c"
    using sample_lines(1) by (simp only: list_all_iff)
  have 2: "status_loop [py '' '' @ TAB, staged_deletion] {} = status_loop [staged_deletion] {}"
    using status_parsing_total [where l = "py '' '' @ TAB" and ls = "[staged_deletion]" and acc = "{}"] 1 by blast
  have 3: "strip staged_deletion \<noteq> []"
    unfolding sample_lines(2) by (simp add: py_def)
  have 4: "split_ws (strip staged_deletion) = [py ''D'', py ''PLAN.md'']"
    by (simp only: sample_lines)
  have 5: "py ''D'' \<in> {py ''D''}" by simp
  have 6: "status_loop [staged_deletion, staged_modification] {py ''D''} =
      status_loop [staged_modification] {py ''D''}"
    using status_parsing_total [where l = staged_deletion and t = "py ''D''"
        and rest = "[py ''PLAN.md'']" and acc = "{py ''D''}" and ls = "[staged_modification]"] 4 5 by blast
  have 7: "\<exists>statuses. staged_status_codes (sample_world 1 staged_with_blanks True) = Inr statuses"
    using status_parsing_total [where w = "sample_world 1 staged_with_blanks True"] by blast
  from sample_lines(1) 2 3 4 5 6 7 show ?thesis by blast
qed

end
